theory Spec2Isabelle
  imports Main "HOL-Library.Sublist"
begin

section \<open>googlecl/service.py: a shallow embedding\<close>

text \<open>
  The module is Python 2. Byte strings are \<open>string\<close>, Python's unbounded integers are
  \<open>int\<close>, a Python \<open>set\<close> of strings is a \<open>string set\<close>, and every exception the
  modelled code can raise is a value of \<open>error\<close>; a function that can raise returns
  \<open>error + 'a\<close> with \<open>Inl\<close> for the exception.
\<close>

datatype error =
    RequestError string
  | Error string
  | IndexError
  | AttributeError string
  | ValueError
  | EOFError

subsection \<open>The string built-ins the module calls\<close>

text \<open>\<open>str(n)\<close> for an integer: decimal digits, with a leading minus sign below zero.\<close>

definition digit_char :: "nat \<Rightarrow> char" where
  "digit_char d = ''0123456789'' ! d"

fun str_nat :: "nat \<Rightarrow> string" where
  "str_nat n = (if n < 10 then [digit_char n] else str_nat (n div 10) @ [digit_char (n mod 10)])"

declare str_nat.simps [simp del]

definition str_int :: "int \<Rightarrow> string" where
  "str_int i = (if i < 0 then CHR ''-'' # str_nat (nat (- i)) else str_nat (nat i))"

text \<open>
  \<open>s.find(sub)\<close>: the index of the first occurrence of \<open>sub\<close> in \<open>s\<close>, or \<open>-1\<close> when
  there is none.
\<close>

fun find_from :: "string \<Rightarrow> string \<Rightarrow> int \<Rightarrow> int" where
  "find_from sub [] i = (if sub = [] then i else - 1)"
| "find_from sub (c # cs) i = (if prefix sub (c # cs) then i else find_from sub cs (i + 1))"

definition py_find :: "string \<Rightarrow> string \<Rightarrow> int" where
  "py_find s sub = find_from sub s 0"

text \<open>
  \<open>s.replace(old, new)\<close>: the non-overlapping occurrences of \<open>old\<close> are replaced from
  the left; an empty \<open>old\<close> matches before every character and at the end.
\<close>

function py_replace :: "string \<Rightarrow> string \<Rightarrow> string \<Rightarrow> string" where
  "py_replace old new s =
     (if old = [] then new @ concat (map (\<lambda>c. c # new) s)
      else if s = [] then []
      else if prefix old s then new @ py_replace old new (drop (length old) s)
      else hd s # py_replace old new (tl s))"
  by pat_completeness auto
termination
  by (relation "measure (\<lambda>(old, new, s). length s)") auto

declare py_replace.simps [simp del]

text \<open>
  \<open>s.split(sep)\<close> for a one-character separator: the result always has at least one
  field, and \<open>''.split(',')\<close> is \<open>['']\<close>.
\<close>

fun py_split :: "string \<Rightarrow> char \<Rightarrow> string list" where
  "py_split [] sep = [[]]"
| "py_split (c # cs) sep =
     (if c = sep then [] # py_split cs sep
      else (case py_split cs sep of
              [] \<Rightarrow> [[c]]
            | w # ws \<Rightarrow> (c # w) # ws))"

subsection \<open>\<open>set_max_results\<close>\<close>

text \<open>
  \<^verbatim>\<open>
  def set_max_results(uri, max):
    max_str = str(max)
    if uri.find('?') == -1:
      return uri + '?max-results=' + max_str
    else:
      if uri.find('max-results') == -1:
        return uri + '&max-results=' + max_str
      else:
        return uri
  \<close>
\<close>

definition set_max_results :: "string \<Rightarrow> int \<Rightarrow> string" where
  "set_max_results uri max' =
     (let max_str = str_int max' in
      if py_find uri ''?'' = - 1 then uri @ ''?max-results='' @ max_str
      else if py_find uri ''max-results'' = - 1 then uri @ ''&max-results='' @ max_str
      else uri)"

subsection \<open>\<open>generate_tag_sets\<close>\<close>

text \<open>
  \<^verbatim>\<open>
  def generate_tag_sets(tags):
    tags = tags.replace(', ', ',')
    tagset = set(tags.split(','))
    remove_set = set(tag[1:] for tag in tagset if tag[0] == '-')
    if '-' in remove_set:
      replace_tags = True
    else:
      replace_tags = False
    add_set = set()
    if len(remove_set) != len(tagset):
      for tag in tagset:
        if tag[:1] == '\-':
          add_set.add(tag[1:])
        elif tag[0] != '-':
          add_set.add(tag)
    return (remove_set, add_set, replace_tags)
  \<close>
  In Python the literal \<open>'\-'\<close> is the two characters backslash and hyphen, since
  \<open>\-\<close> is not an escape sequence. \<open>tag[0]\<close> raises \<open>IndexError\<close> on the empty
  string, while the slices \<open>tag[1:]\<close> and \<open>tag[:1]\<close> never raise. The generator
  expression is consumed completely by \<open>set(...)\<close>, so it reaches an empty tag of
  \<open>tagset\<close> whatever the iteration order of the set is; the results are sets, so the
  order does not matter for them either.
\<close>

definition backslash :: char where
  "backslash = CHR 0x5C"

text \<open>
  The elements of \<open>tagset\<close>, as the sequence in which the set is iterated: the distinct
  tokens. The model takes the order of first occurrence.
\<close>

definition tagset_of :: "string \<Rightarrow> string list" where
  "tagset_of tags = remdups (py_split (py_replace '', '' '','' tags) CHR '','')"

text \<open>The body of the \<open>for tag in tagset\<close> loop, for tags that are not empty.\<close>

definition add_tag :: "string \<Rightarrow> string set \<Rightarrow> string set" where
  "add_tag tag add_set =
     (if take 1 tag = [backslash, CHR ''-''] then insert (drop 1 tag) add_set
      else if hd tag \<noteq> CHR ''-'' then insert tag add_set
      else add_set)"

definition generate_tag_sets :: "string \<Rightarrow> error + (string set \<times> string set \<times> bool)" where
  "generate_tag_sets tags =
     (let tagset = tagset_of tags in
      if [] \<in> set tagset then Inl IndexError
      else
        let remove_set = set (map (drop 1) (filter (\<lambda>tag. hd tag = CHR ''-'') tagset));
            replace_tags = (''-'' \<in> remove_set);
            add_set =
              (if card remove_set \<noteq> length tagset then fold add_tag tagset {} else {})
        in Inr (remove_set, add_set, replace_tags))"

subsection \<open>\<open>Task.requires\<close>\<close>



datatype pyval = PNone | PBool bool | PInt int | PStr string


type_synonym options = "string \<rightharpoonup> pyval"

definition getattr :: "options \<Rightarrow> string \<Rightarrow> error + pyval" where
  "getattr opts name =
     (case opts name of None \<Rightarrow> Inl (AttributeError name) | Some v \<Rightarrow> Inr v)"







subsection \<open>The service object, the feed source and the terminal\<close>

text \<open>
  Of an entry the module reads \<open>entry.title.text\<close>, which is a string or \<open>None\<close>;
  \<open>ident\<close> tells entries apart. Of a feed it reads the list \<open>feed.entry\<close> and
  \<open>feed.GetNextLink()\<close>, which is a link or \<open>None\<close>.
\<close>

record gd_entry =
  ident :: nat
  title_text :: "string option"

record gd_feed =
  entry :: "gd_entry list"
  next_link :: "string option"

text \<open>
  \<open>self\<close>: the attributes \<open>_set_params\<close> sets, and the two methods inherited from
  \<open>gdata.service.GDataService\<close> that fetch pages. \<open>GetFeed\<close> takes the URI and the
  converter when one is passed; \<open>GetNext\<close> takes the current feed and returns the next
  one or \<open>None\<close>. Both make a request and can raise, \<open>Inl\<close>. \<open>re_match\<close> stands for
  \<open>re.match(pattern, text)\<close> being a match.
\<close>

record 'c service =
  use_regex :: bool
  prompt_for_tags :: bool
  prompt_for_delete :: bool
  cap_results :: bool
  max_results :: int
  GetFeed :: "string \<Rightarrow> 'c option \<Rightarrow> error + gd_feed"
  GetNext :: "gd_feed \<Rightarrow> error + gd_feed option"
  re_match :: "string \<Rightarrow> string \<Rightarrow> bool"

text \<open>
  The terminal: what was written to standard output (one element per \<open>print\<close> and per
  prompt), the warnings issued through \<open>warnings.warn\<close>, and the lines \<open>raw_input\<close>
  has still to read.
\<close>

record world =
  stdout :: "string list"
  warnings :: "string list"
  stdin :: "string list"

subsection \<open>\<open>BaseServiceCL.get_entries\<close>\<close>

text \<open>
  \<^verbatim>\<open>
  def get_entries(self, uri, title=None, converter=None):
    uri = set_max_results(uri, self.max_results)
    try:
      if converter:
        feed = self.GetFeed(uri, converter=converter)
      else:
        feed = self.GetFeed(uri)
    except gdata.service.RequestError, err:
      print 'Failed to get entries: ' + str(err)
      return []
    all_entries = feed.entry
    if feed.GetNextLink():
      if self.cap_results:
        warnings.warn('Leaving data that matches query on server.' +
                      ' Increase max_results or set cap_results to False.',
                      LeftoverData, stacklevel=2)
      else:
        while feed and feed.GetNextLink():
          feed = self.GetNext(feed)
          if feed:
            all_entries.extend(feed.entry)
    if not title:
      return all_entries
    if self.use_regex:
      return [entry for entry in all_entries
              if entry.title.text and re.match(title,entry.title.text)]
    else:
      return [entry for entry in all_entries if title == entry.title.text]
  \<close>
  The \<open>try\<close> encloses the first request only. The \<open>while\<close> loop runs as long as the
  server keeps sending pages with a next link, so it is a partial function: \<open>None\<close> is
  the loop that never ends.
\<close>

definition leftover_message :: string where
  "leftover_message =
     ''Leaving data that matches query on server.'' @
     '' Increase max_results or set cap_results to False.''"

partial_function (option) next_pages ::
  "(gd_feed \<Rightarrow> error + gd_feed option) \<Rightarrow> gd_feed option \<Rightarrow> gd_entry list
     \<Rightarrow> (error + gd_entry list) option"
where
  "next_pages get_next feed all_entries =
     (case feed of
        None \<Rightarrow> Some (Inr all_entries)
      | Some f \<Rightarrow>
          (case next_link f of
             None \<Rightarrow> Some (Inr all_entries)
           | Some link \<Rightarrow>
               (case get_next f of
                  Inl err \<Rightarrow> Some (Inl err)
                | Inr feed' \<Rightarrow>
                    next_pages get_next feed'
                      (case feed' of
                         None \<Rightarrow> all_entries
                       | Some f' \<Rightarrow> all_entries @ entry f'))))"

declare next_pages.simps [code]

text \<open>The end of \<open>get_entries\<close>, from \<open>if not title\<close>.\<close>

definition match_title :: "'c service \<Rightarrow> string option \<Rightarrow> gd_entry list \<Rightarrow> gd_entry list" where
  "match_title self title all_entries =
     (case title of
        None \<Rightarrow> all_entries
      | Some t \<Rightarrow>
          if t = [] then all_entries
          else if use_regex self then
            filter (\<lambda>e. case title_text e of
                           None \<Rightarrow> False
                         | Some text \<Rightarrow> text \<noteq> [] \<and> re_match self t text) all_entries
          else filter (\<lambda>e. title_text e = Some t) all_entries)"

definition get_entries ::
  "'c service \<Rightarrow> string \<Rightarrow> string option \<Rightarrow> 'c option \<Rightarrow> world
     \<Rightarrow> ((error + gd_entry list) \<times> world) option"
where
  "get_entries self uri title converter w =
     (let uri = set_max_results uri (max_results self) in
      case GetFeed self uri converter of
        Inl (RequestError err) \<Rightarrow>
          Some (Inr [], w\<lparr>stdout := stdout w @ [''Failed to get entries: '' @ err]\<rparr>)
      | Inl other \<Rightarrow> Some (Inl other, w)
      | Inr feed \<Rightarrow>
          (let all_entries = entry feed in
           if next_link feed \<noteq> None then
             if cap_results self then
               Some (Inr (match_title self title all_entries),
                     w\<lparr>warnings := warnings w @ [leftover_message]\<rparr>)
             else
               (case next_pages (GetNext self) (Some feed) all_entries of
                  None \<Rightarrow> None
                | Some (Inl err) \<Rightarrow> Some (Inl err, w)
                | Some (Inr all_entries) \<Rightarrow> Some (Inr (match_title self title all_entries), w))
           else Some (Inr (match_title self title all_entries), w)))"

subsection \<open>\<open>BaseServiceCL.get_single_entry\<close>\<close>

text \<open>
  \<open>int(s)\<close> for a string: white space around the number is skipped, a sign may come
  first, then there is at least one decimal digit and nothing else; anything else raises
  \<open>ValueError\<close>, here \<open>None\<close>.
\<close>

definition is_space :: "char \<Rightarrow> bool" where
  "is_space c = (c \<in> set [CHR 0x20, CHR 0x09, CHR 0x0A, CHR 0x0B, CHR 0x0C, CHR 0x0D])"

definition py_strip :: "string \<Rightarrow> string" where
  "py_strip s = rev (dropWhile is_space (rev (dropWhile is_space s)))"

definition digit_val :: "char \<Rightarrow> nat option" where
  "digit_val c = map_of (zip ''0123456789'' [0..<10]) c"

fun digits_val :: "string \<Rightarrow> nat \<Rightarrow> nat option" where
  "digits_val [] acc = Some acc"
| "digits_val (c # cs) acc =
     (case digit_val c of None \<Rightarrow> None | Some d \<Rightarrow> digits_val cs (10 * acc + d))"

definition py_int :: "string \<Rightarrow> int option" where
  "py_int s =
     (case py_strip s of
        [] \<Rightarrow> None
      | c # cs \<Rightarrow>
          if c = CHR ''-'' then
            (if cs = [] then None else map_option (\<lambda>n. - int n) (digits_val cs 0))
          else if c = CHR ''+'' then
            (if cs = [] then None else map_option int (digits_val cs 0))
          else map_option int (digits_val (c # cs) 0))"

text \<open>
  \<^verbatim>\<open>
  def get_single_entry(self, uri_or_entry_list, title=None, converter=None):
    if not uri_or_entry_list:
      return None

    if isinstance(uri_or_entry_list, basestring):
      entries = self.GetEntries(uri_or_entry_list, title, converter)
    elif isinstance(uri_or_entry_list, list):
      entries = uri_or_entry_list
    else:
      raise Error('Got unexpected type for uri_or_entry_list!')

    if not entries:
      return None
    if len(entries) == 1:
      return entries[0]
    elif len(entries) > 1:
      print 'More than one match for title ' + (title or '')
      for num, entry in enumerate(entries):
        print '%i) %s' % (num, entry.title.text)
      selection = -1
      while selection < 0 or selection > len(entries)-1:
        selection = int(raw_input('Please select one of the items by number: '))
      return entries[selection]
  \<close>
  The argument is \<open>None\<close>, a string, a list of entries, or an object of another type, of
  which only the truth value is read.
\<close>

datatype uri_or_entry_list =
    ArgNone
  | ArgStr string
  | ArgList "gd_entry list"
  | ArgOther bool

fun arg_truth :: "uri_or_entry_list \<Rightarrow> bool" where
  "arg_truth ArgNone = False"
| "arg_truth (ArgStr s) = (s \<noteq> [])"
| "arg_truth (ArgList es) = (es \<noteq> [])"
| "arg_truth (ArgOther b) = b"

definition select_prompt :: string where
  "select_prompt = ''Please select one of the items by number: ''"

text \<open>
  The \<open>while\<close> loop: \<open>n\<close> is \<open>len(entries)\<close>. \<open>raw_input\<close> writes the prompt, then reads
  a line or raises \<open>EOFError\<close> when there is none.
\<close>

fun select_loop ::
  "int \<Rightarrow> int \<Rightarrow> string list \<Rightarrow> string list \<Rightarrow> (error + int) \<times> string list \<times> string list"
where
  "select_loop n selection [] out =
     (if selection < 0 \<or> selection > n - 1 then (Inl EOFError, [], out @ [select_prompt])
      else (Inr selection, [], out))"
| "select_loop n selection (line # rest) out =
     (if selection < 0 \<or> selection > n - 1 then
        (case py_int line of
           None \<Rightarrow> (Inl ValueError, rest, out @ [select_prompt])
         | Some v \<Rightarrow> select_loop n v rest (out @ [select_prompt]))
      else (Inr selection, line # rest, out))"

definition entry_line :: "nat \<Rightarrow> gd_entry \<Rightarrow> string" where
  "entry_line num e =
     str_int (int num) @ '') '' @ (case title_text e of None \<Rightarrow> ''None'' | Some text \<Rightarrow> text)"

text \<open>What the two \<open>print\<close> statements write when several entries are left.\<close>

definition listing :: "gd_entry list \<Rightarrow> string option \<Rightarrow> string list" where
  "listing entries title =
     (''More than one match for title '' @ (case title of None \<Rightarrow> [] | Some t \<Rightarrow> t))
     # map (\<lambda>(num, e). entry_line num e) (enumerate 0 entries)"

text \<open>The part of \<open>get_single_entry\<close> after \<open>entries\<close> is bound.\<close>

definition select_entry ::
  "gd_entry list \<Rightarrow> string option \<Rightarrow> world \<Rightarrow> (error + gd_entry option) \<times> world"
where
  "select_entry entries title w =
     (if entries = [] then (Inr None, w)
      else if length entries = 1 then (Inr (Some (entries ! 0)), w)
      else
        case select_loop (int (length entries)) (- 1) (stdin w)
               (stdout w @ listing entries title) of
          (Inl err, inp, out) \<Rightarrow> (Inl err, w\<lparr>stdout := out, stdin := inp\<rparr>)
        | (Inr selection, inp, out) \<Rightarrow>
            (Inr (Some (entries ! nat selection)), w\<lparr>stdout := out, stdin := inp\<rparr>))"

definition get_single_entry ::
  "'c service \<Rightarrow> uri_or_entry_list \<Rightarrow> string option \<Rightarrow> 'c option \<Rightarrow> world
     \<Rightarrow> ((error + gd_entry option) \<times> world) option"
where
  "get_single_entry self arg title converter w =
     (if \<not> arg_truth arg then Some (Inr None, w)
      else
        case arg of
          ArgStr uri \<Rightarrow>
            (case get_entries self uri title converter w of
               None \<Rightarrow> None
             | Some (Inl err, w') \<Rightarrow> Some (Inl err, w')
             | Some (Inr entries, w') \<Rightarrow> Some (select_entry entries title w'))
        | ArgList entries \<Rightarrow> Some (select_entry entries title w)
        | _ \<Rightarrow> Some (Inl (Error ''Got unexpected type for uri_or_entry_list!''), w))"

section \<open>Notions used in the statements\<close>




text \<open>
  \<open>follows get_next f ps\<close>: starting from the page \<open>f\<close>, the feed source hands out the
  pages \<open>ps\<close> one after the other, each reached through the next link of the one before,
  and then stops, because the last page has no next link or because the source yields no
  page for it.
\<close>

fun follows :: "(gd_feed \<Rightarrow> error + gd_feed option) \<Rightarrow> gd_feed \<Rightarrow> gd_feed list \<Rightarrow> bool" where
  "follows get_next f [] = (next_link f = None \<or> get_next f = Inr None)"
| "follows get_next f (g # gs) =
     (next_link f \<noteq> None \<and> get_next f = Inr (Some g) \<and> follows get_next g gs)"

section \<open>Example inputs\<close>



text \<open>
  A feed of three pages of sizes 2, 2 and 1, a service that serves it, next-page methods
  that raise or yield no page, and a terminal with given input lines.
\<close>

definition e1 :: gd_entry where "e1 = \<lparr>ident = 1, title_text = Some ''one''\<rparr>"
definition e2 :: gd_entry where "e2 = \<lparr>ident = 2, title_text = Some ''two''\<rparr>"
definition e3 :: gd_entry where "e3 = \<lparr>ident = 3, title_text = Some ''three''\<rparr>"
definition e4 :: gd_entry where "e4 = \<lparr>ident = 4, title_text = None\<rparr>"
definition e5 :: gd_entry where "e5 = \<lparr>ident = 5, title_text = Some ''five''\<rparr>"

definition page1 :: gd_feed where
  "page1 = \<lparr>entry = [e1, e2], next_link = Some ''http://x/feed?start-index=3''\<rparr>"
definition page2 :: gd_feed where
  "page2 = \<lparr>entry = [e3, e4], next_link = Some ''http://x/feed?start-index=5''\<rparr>"
definition page3 :: gd_feed where
  "page3 = \<lparr>entry = [e5], next_link = None\<rparr>"

definition mock_feed :: "string \<Rightarrow> unit option \<Rightarrow> error + gd_feed" where
  "mock_feed uri converter =
     (if uri = ''http://x/feed?max-results=10000'' then Inr page1
      else Inl (RequestError ''404''))"

definition mock_next :: "gd_feed \<Rightarrow> error + gd_feed option" where
  "mock_next f =
     (if next_link f = Some ''http://x/feed?start-index=3'' then Inr (Some page2)
      else if next_link f = Some ''http://x/feed?start-index=5'' then Inr (Some page3)
      else Inr None)"

definition mock_service ::
  "bool \<Rightarrow> (gd_feed \<Rightarrow> error + gd_feed option) \<Rightarrow> unit service" where
  "mock_service cap get_next =
     \<lparr>use_regex = True, prompt_for_tags = False, prompt_for_delete = True,
      cap_results = cap, max_results = 10000,
      GetFeed = mock_feed, GetNext = get_next, re_match = (\<lambda>pattern text. False)\<rparr>"

definition failing_next :: "gd_feed \<Rightarrow> error + gd_feed option" where
  "failing_next f = Inl (RequestError ''503'')"


definition terminal :: "string list \<Rightarrow> world" where
  "terminal lines = \<lparr>stdout = [], warnings = [], stdin = lines\<rparr>"

section \<open>Properties of \<open>set_max_results\<close>\<close>

lemma find_from_none: "0 \<le> i \<Longrightarrow> find_from sub s i = - 1 \<longleftrightarrow> \<not> sublist sub s"
  by (induction s arbitrary: i) (auto simp: sublist_Cons_right)

lemma py_find_none: "py_find s sub = - 1 \<longleftrightarrow> \<not> sublist sub s"
  by (simp add: py_find_def find_from_none)

lemma sublist_single: "sublist [c] s \<longleftrightarrow> c \<in> set s"
  by (induction s) (auto simp: sublist_Cons_right)

lemma str_int_50: "str_int 50 = ''50''"
  by code_simp

text \<open>
  C8. For every URI and count \<open>n\<close>, \<open>set_max_results\<close> appends \<open>?max-results=<n>\<close> when
  the URI has no question mark (no query string), appends \<open>&max-results=<n>\<close> when it has
  one and does not contain the substring \<open>max-results\<close>, and returns the URI unchanged
  when it has a question mark and contains that substring. \<open><n>\<close> is the decimal numeral
  \<open>str_int n\<close>.
\<close>

theorem set_max_results_cases:
  "set_max_results uri n =
     (if CHR ''?'' \<notin> set uri then uri @ ''?max-results='' @ str_int n
      else if \<not> sublist ''max-results'' uri then uri @ ''&max-results='' @ str_int n
      else uri)"
  by (simp add: set_max_results_def py_find_none sublist_single)

text \<open>The three examples of the specification, with \<open>n = 50\<close>.\<close>

theorem set_max_results_examples:
  "set_max_results ''http://x/feed'' 50 = ''http://x/feed?max-results=50'' \<and>
   set_max_results ''http://x/feed?a=1'' 50 = ''http://x/feed?a=1&max-results=50'' \<and>
   set_max_results ''http://x/feed?max-results=10'' 50 = ''http://x/feed?max-results=10''"
  using set_max_results_cases [of "''http://x/feed''" 50]
        set_max_results_cases [of "''http://x/feed?a=1''" 50]
        set_max_results_cases [of "''http://x/feed?max-results=10''" 50]
  by (simp add: str_int_50 sublist_Cons_right)

section \<open>Properties of \<open>generate_tag_sets\<close>\<close>

lemma take1_not_escape: "take 1 tag \<noteq> [backslash, CHR ''-'']"
proof
  assume "take 1 tag = [backslash, CHR ''-'']"
  then have "length (take 1 tag) = 2" by simp
  then show False by simp
qed

lemma add_tag_eq: "add_tag tag A = (if hd tag \<noteq> CHR ''-'' then insert tag A else A)"
  using take1_not_escape [of tag] by (simp add: add_tag_def)

lemma fold_add_tag: "fold add_tag xs A = A \<union> {t \<in> set xs. hd t \<noteq> CHR ''-''}"
  by (induction xs arbitrary: A) (auto simp: add_tag_eq)

lemma drop1_inj: "inj_on (drop 1) {t. t \<noteq> [] \<and> hd t = CHR ''-''}"
  by (rule inj_onI) (auto simp: neq_Nil_conv)

lemma card_remove_set:
  assumes "distinct xs" "[] \<notin> set xs"
  shows "card (set (map (drop 1) (filter (\<lambda>t. hd t = CHR ''-'') xs))) =
         length (filter (\<lambda>t. hd t = CHR ''-'') xs)"
proof -
  have "inj_on (drop 1) (set (filter (\<lambda>t. hd t = CHR ''-'') xs))"
    using assms(2) by (intro inj_on_subset [OF drop1_inj]) auto
  moreover have "distinct (filter (\<lambda>t. hd t = CHR ''-'') xs)"
    using assms(1) by simp
  ultimately have "distinct (map (drop 1) (filter (\<lambda>t. hd t = CHR ''-'') xs))"
    by (simp add: distinct_map)
  then show ?thesis
    using distinct_card by fastforce
qed

lemma distinct_tagset: "distinct (tagset_of tags)"
  by (simp add: tagset_of_def)

lemma all_removals:
  "length (filter P xs) = length xs \<Longrightarrow> {t \<in> set xs. \<not> P t} = {}"
  using length_filter_less of_nat_le_iff by force

lemma generate_tag_sets_Inr:
  assumes "[] \<notin> set (tagset_of tags)"
  shows "generate_tag_sets tags =
           Inr (drop 1 ` {t \<in> set (tagset_of tags). hd t = CHR ''-''},
                {t \<in> set (tagset_of tags). hd t \<noteq> CHR ''-''},
                ''--'' \<in> set (tagset_of tags))"
proof -
  let ?ts = "tagset_of tags"
  let ?P = "\<lambda>t. hd t = CHR ''-''"
  have card: "card (set (map (drop 1) (filter ?P ?ts))) = length (filter ?P ?ts)"
    using card_remove_set [OF distinct_tagset assms] .
  have rem: "set (map (drop 1) (filter ?P ?ts)) = drop 1 ` {t \<in> set ?ts. ?P t}"
    by auto
  have add: "(if card (set (map (drop 1) (filter ?P ?ts))) \<noteq> length ?ts
              then fold add_tag ?ts {} else {}) = {t \<in> set ?ts. \<not> ?P t}"
  proof (cases "length (filter ?P ?ts) = length ?ts")
    case True
    then show ?thesis using all_removals [of ?P ?ts] by (simp only: card) simp
  next
    case False
    then show ?thesis by (simp only: card fold_add_tag) simp
  qed
  have rep: "''-'' \<in> drop 1 ` {t \<in> set ?ts. ?P t} \<longleftrightarrow> ''--'' \<in> set ?ts"
  proof
    assume "''-'' \<in> drop 1 ` {t \<in> set ?ts. ?P t}"
    then obtain t where t: "t \<in> set ?ts" "?P t" "drop 1 t = ''-''" by auto
    from t(1) assms have "t \<noteq> []" by auto
    with t(2,3) have "t = ''--''" by (cases t) simp_all
    with t(1) show "''--'' \<in> set ?ts" by simp
  next
    assume "''--'' \<in> set ?ts"
    then have "drop 1 ''--'' \<in> drop 1 ` {t \<in> set ?ts. ?P t}"
      by (intro imageI CollectI conjI) simp_all
    then show "''-'' \<in> drop 1 ` {t \<in> set ?ts. ?P t}" by simp
  qed
  have add': "(if card (drop 1 ` {t \<in> set ?ts. ?P t}) \<noteq> length ?ts
               then fold add_tag ?ts {} else {}) = {t \<in> set ?ts. \<not> ?P t}"
    using add unfolding rem .
  show ?thesis
    using assms by (simp only: generate_tag_sets_def Let_def rem add' rep if_False)
qed

text \<open>
  C4, at the input \<open>\-tag5\<close>. The test \<open>tag[:1] == '\-'\<close> compares a string of at most
  one character with a string of two, so the branch that strips the backslash is never
  taken: the token goes to \<open>add_set\<close> through the \<open>elif\<close>, with its backslash. The
  docstring promises the tag \<open>-tag5\<close>.
\<close>

theorem escaped_hyphen_keeps_backslash:
  "generate_tag_sets (backslash # ''-tag5'') = Inr ({}, {backslash # ''-tag5''}, False) \<and>
   generate_tag_sets (backslash # ''-tag5'') \<noteq> Inr ({}, {''-tag5''}, False)"
  by code_simp

text \<open>
  C7, at the empty input and at an input with a doubled comma. \<open>split\<close> yields an empty
  token in both, and \<open>tag[0]\<close> raises \<open>IndexError\<close> on it: no sets are returned.
\<close>

theorem empty_token_raises:
  "generate_tag_sets [] = Inl IndexError \<and> generate_tag_sets ''a,,b'' = Inl IndexError"
  by code_simp

text \<open>
  C5 as stated fails: parsing \<open>--, tag6\<close> does not give an empty remove set, since the
  marker leaves \<open>-\<close> in it; and a token that is exactly \<open>-\<close> puts the empty string in the
  remove set without setting \<open>replace_tags\<close>.
\<close>

theorem replace_marker_counterexample:
  "generate_tag_sets ''--, tag6'' \<noteq> Inr ({}, {''tag6''}, True) \<and>
   generate_tag_sets ''-'' = Inr ({[]}, {}, False)"
  by code_simp

text \<open>
  C5, amended. Whenever the parser returns, \<open>replace_tags\<close> is true exactly when some
  token is \<open>--\<close>; that token contributes \<open>-\<close> to the remove set and nothing to the add
  set. A token that is exactly \<open>-\<close> contributes the empty string to the remove set and
  nothing to the add set.
\<close>

theorem replace_marker:
  assumes "generate_tag_sets tags = Inr (remove_set, add_set, replace_tags)"
  shows "(replace_tags \<longleftrightarrow> ''--'' \<in> set (tagset_of tags)) \<and>
         (''--'' \<in> set (tagset_of tags) \<longrightarrow> ''-'' \<in> remove_set \<and> ''--'' \<notin> add_set) \<and>
         (''-'' \<in> set (tagset_of tags) \<longrightarrow> [] \<in> remove_set \<and> ''-'' \<notin> add_set)"
proof -
  have ne: "[] \<notin> set (tagset_of tags)"
    using assms by (auto simp: generate_tag_sets_def Let_def split: if_splits)
  from assms generate_tag_sets_Inr [OF ne]
  have r: "remove_set = drop 1 ` {t \<in> set (tagset_of tags). hd t = CHR ''-''}"
    and a: "add_set = {t \<in> set (tagset_of tags). hd t \<noteq> CHR ''-''}"
    and p: "replace_tags \<longleftrightarrow> ''--'' \<in> set (tagset_of tags)"
    by simp_all
  have "''-'' \<in> remove_set" if "''--'' \<in> set (tagset_of tags)"
  proof -
    from that have "drop 1 ''--'' \<in> remove_set"
      unfolding r by (intro imageI CollectI conjI) simp_all
    then show ?thesis by simp
  qed
  moreover have "[] \<in> remove_set" if "''-'' \<in> set (tagset_of tags)"
  proof -
    from that have "drop 1 ''-'' \<in> remove_set"
      unfolding r by (intro imageI CollectI conjI) simp_all
    then show ?thesis by simp
  qed
  ultimately show ?thesis
    using p by (simp add: a)
qed

theorem replace_marker_witness:
  "generate_tag_sets ''--, tag6'' = Inr ({''-''}, {''tag6''}, True) \<and>
   ''--'' \<in> set (tagset_of ''--, tag6'') \<and> ''-'' \<in> {''-''} \<and> ''--'' \<notin> {''tag6''}"
proof -
  have h: "generate_tag_sets ''--, tag6'' = Inr ({''-''}, {''tag6''}, True)"
    by code_simp
  show ?thesis
    using h replace_marker [OF h] by simp
qed




section \<open>Properties of \<open>Task.requires\<close>\<close>


lemma getattr_defined: "name \<in> dom opts \<Longrightarrow> getattr opts name = Inr (the (opts name))"
  by (auto simp: getattr_def)





section \<open>Properties of \<open>get_entries\<close>\<close>

lemma next_pages_follows:
  "follows get_next f ps \<Longrightarrow>
   next_pages get_next (Some f) acc = Some (Inr (acc @ concat (map entry ps)))"
proof (induction ps arbitrary: f acc)
  case Nil
  then show ?case
    by (subst next_pages.simps) (auto simp: next_pages.simps split: option.splits)
next
  case (Cons g gs)
  then show ?case
    by (subst next_pages.simps) (auto split: option.splits)
qed


lemma str_int_10000: "str_int 10000 = ''10000''"
  by (simp add: str_int_def str_nat.simps digit_char_def)




lemma get_entries_all_pages:
  assumes g: "GetFeed self (set_max_results uri (max_results self)) converter = Inr feed"
    and c: "\<not> cap_results self"
    and f: "follows (GetNext self) feed ps"
    and nl: "next_link feed \<noteq> None"
  shows "get_entries self uri title converter w =
           Some (Inr (match_title self title (entry feed @ concat (map entry ps))), w)"
proof -
  have np: "next_pages (GetNext self) (Some feed) (entry feed) =
              Some (Inr (entry feed @ concat (map entry ps)))"
    by (rule next_pages_follows [OF f])
  show ?thesis
    unfolding get_entries_def Let_def g using nl c by (simp add: np)
qed

lemma get_entries_capped:
  assumes g: "GetFeed self (set_max_results uri (max_results self)) converter = Inr feed"
    and c: "cap_results self"
    and nl: "next_link feed \<noteq> None"
  shows "get_entries self uri title converter w =
           Some (Inr (match_title self title (entry feed)),
                 w\<lparr>warnings := warnings w @ [leftover_message]\<rparr>)"
  unfolding get_entries_def Let_def g using nl c by simp


lemma match_title_none: "title = None \<or> title = Some [] \<Longrightarrow> match_title self title es = es"
  by (auto simp: match_title_def)

lemma mock_first_page:
  "GetFeed (mock_service cap get_next)
     (set_max_results ''http://x/feed'' (max_results (mock_service cap get_next))) None = Inr page1"
  by (simp add: mock_service_def mock_feed_def set_max_results_def py_find_none sublist_single
        str_int_10000)


lemma mock_service_sel:
  "cap_results (mock_service cap get_next) = cap"
  "GetNext (mock_service cap get_next) = get_next"
  by (simp_all add: mock_service_def)

lemma mock_follows: "follows mock_next page1 [page2, page3]"
  by (simp add: mock_next_def page1_def page2_def page3_def)

lemma page1_link: "next_link page1 \<noteq> None"
  by (simp add: page1_def)

lemma page_entries:
  "entry page1 = [e1, e2]" "entry page2 = [e3, e4]" "entry page3 = [e5]"
  by (simp_all add: page1_def page2_def page3_def)




text \<open>
  C2. Let the first page carry a next link and let no title be given. With \<open>cap_results\<close>
  the result is exactly the entries of the first page and the \<open>LeftoverData\<close> warning is
  issued. Without it, the pages that follow are fetched in order and their entries are
  appended in that order, until a page has no next link or no page is returned; no warning
  is issued.
\<close>

theorem get_entries_pages:
  assumes "GetFeed self (set_max_results uri (max_results self)) converter = Inr feed"
    and "next_link feed \<noteq> None"
    and "title = None \<or> title = Some []"
  shows "(cap_results self \<longrightarrow>
            get_entries self uri title converter w =
              Some (Inr (entry feed), w\<lparr>warnings := warnings w @ [leftover_message]\<rparr>)) \<and>
         (\<not> cap_results self \<and> follows (GetNext self) feed ps \<longrightarrow>
            get_entries self uri title converter w =
              Some (Inr (entry feed @ concat (map entry ps)), w))"
  using get_entries_capped [OF assms(1) _ assms(2), of title w]
        get_entries_all_pages [OF assms(1) _ _ assms(2), of ps title w]
  by (simp add: match_title_none [OF assms(3)])

text \<open>
  The feed of three pages of sizes 2, 2 and 1: five entries and no warning without the
  cap, the two entries of the first page and the warning with it.
\<close>

theorem get_entries_pages_witness:
  "get_entries (mock_service False mock_next) ''http://x/feed'' None None (terminal []) =
     Some (Inr [e1, e2, e3, e4, e5], terminal []) \<and>
   get_entries (mock_service True mock_next) ''http://x/feed'' None None (terminal []) =
     Some (Inr [e1, e2], (terminal [])\<lparr>warnings := [leftover_message]\<rparr>)"
proof -
  have t: "None = None \<or> None = Some ([] :: string)" by simp
  from get_entries_pages [OF mock_first_page page1_link t, of False mock_next "terminal []" "[page2, page3]"]
       mock_follows
  have 1: "get_entries (mock_service False mock_next) ''http://x/feed'' None None (terminal []) =
             Some (Inr (entry page1 @ concat (map entry [page2, page3])), terminal [])"
    by (simp add: mock_service_sel)
  from get_entries_pages [OF mock_first_page page1_link t, of True mock_next "terminal []" "[]"]
  have 2: "get_entries (mock_service True mock_next) ''http://x/feed'' None None (terminal []) =
             Some (Inr (entry page1), (terminal [])\<lparr>warnings := warnings (terminal []) @ [leftover_message]\<rparr>)"
    by (simp add: mock_service_sel)
  from 1 2 show ?thesis
    by (simp add: page_entries terminal_def)
qed

section \<open>Properties of \<open>get_single_entry\<close>\<close>

lemma select_loop_retry:
  assumes "selection < 0 \<or> selection > n - 1"
    and "\<forall>line \<in> set bad. \<exists>v. py_int line = Some v \<and> (v < 0 \<or> n \<le> v)"
    and "py_int good = Some k" and "0 \<le> k" and "k < n"
  shows "select_loop n selection (bad @ good # rest) out =
           (Inr k, rest, out @ replicate (Suc (length bad)) select_prompt)"
  using assms
proof (induction bad arbitrary: selection out)
  case Nil
  then show ?case
    by (cases rest) auto
next
  case (Cons line bad)
  from Cons.prems(2) obtain v where v: "py_int line = Some v" "v < 0 \<or> n \<le> v"
    by auto
  from v(2) have v': "v < 0 \<or> v > n - 1" by auto
  have "select_loop n v (bad @ good # rest) (out @ [select_prompt]) =
          (Inr k, rest, (out @ [select_prompt]) @ replicate (Suc (length bad)) select_prompt)"
    using Cons.prems by (intro Cons.IH v') auto
  with Cons.prems(1) v(1) show ?case
    by (simp add: replicate_app_Cons_same)
qed

lemma select_entry_empty: "select_entry [] title w = (Inr None, w)"
  by (simp add: select_entry_def)

lemma select_entry_single: "select_entry [e] title w = (Inr (Some e), w)"
  by (simp add: select_entry_def)

lemma select_entry_choice:
  assumes "1 < length entries"
    and "stdin w = bad @ good # rest"
    and "\<forall>line \<in> set bad. \<exists>v. py_int line = Some v \<and> (v < 0 \<or> int (length entries) \<le> v)"
    and "py_int good = Some k" and "0 \<le> k" and "k < int (length entries)"
  shows "select_entry entries title w =
           (Inr (Some (entries ! nat k)),
            w\<lparr>stdout := stdout w @ listing entries title @
                           replicate (Suc (length bad)) select_prompt,
              stdin := rest\<rparr>)"
proof -
  have "select_loop (int (length entries)) (- 1) (stdin w) (stdout w @ listing entries title) =
          (Inr k, rest, (stdout w @ listing entries title) @
                          replicate (Suc (length bad)) select_prompt)"
    unfolding assms(2) by (rule select_loop_retry [OF _ assms(3-6)]) simp
  moreover from assms(1) have "entries \<noteq> []" "length entries \<noteq> 1" by auto
  ultimately show ?thesis
    by (simp add: select_entry_def)
qed

lemma get_single_entry_select:
  assumes "(arg = ArgList entries \<and> w' = w) \<or>
           (\<exists>uri. uri \<noteq> [] \<and> arg = ArgStr uri \<and>
                  get_entries self uri title converter w = Some (Inr entries, w'))"
  shows "get_single_entry self arg title converter w = Some (select_entry entries title w')"
  using assms by (auto simp: get_single_entry_def select_entry_empty)

lemma py_int_digits: "py_int ''0'' = Some 0" "py_int ''1'' = Some 1" "py_int ''2'' = Some 2"
  by code_simp+

text \<open>
  C9 as stated fails: the choice is not 1-based. With two entries listed, the answer
  \<open>1\<close> selects the second one, not the entry at position 1 counted from one.
\<close>

theorem get_single_entry_one_based_counterexample:
  "get_single_entry (mock_service False mock_next) (ArgList [e1, e2]) None None (terminal [''1'']) =
     Some (Inr (Some e2),
           \<lparr>stdout = listing [e1, e2] None @ [select_prompt], warnings = [], stdin = []\<rparr>) \<and>
   [e1, e2] ! (1 - 1) \<noteq> e2"
  by (simp add: get_single_entry_def select_entry_def terminal_def py_int_digits e1_def e2_def)

text \<open>
  C9, amended. Let \<open>entries\<close> be the list passed in, or the list \<open>get_entries\<close> returns
  for the URI passed in (the entries left after filtering by title). If it is empty the
  result is \<open>None\<close>; if it has one entry the result is that entry; if it has several, the
  entries are listed, numbered from 0, and a number is asked for again and again while
  the number typed is below 0 or above the last index; the result is the entry at the
  index typed, counted from 0.
\<close>

theorem get_single_entry_choice:
  assumes "(arg = ArgList entries \<and> w' = w) \<or>
           (\<exists>uri. uri \<noteq> [] \<and> arg = ArgStr uri \<and>
                  get_entries self uri title converter w = Some (Inr entries, w'))"
  shows "(entries = [] \<longrightarrow> get_single_entry self arg title converter w = Some (Inr None, w')) \<and>
         (\<forall>e. entries = [e] \<longrightarrow>
              get_single_entry self arg title converter w = Some (Inr (Some e), w')) \<and>
         (1 < length entries \<and> stdin w' = bad @ good # rest \<and>
          (\<forall>line \<in> set bad. \<exists>v. py_int line = Some v \<and> (v < 0 \<or> int (length entries) \<le> v)) \<and>
          py_int good = Some k \<and> 0 \<le> k \<and> k < int (length entries) \<longrightarrow>
            get_single_entry self arg title converter w =
              Some (Inr (Some (entries ! nat k)),
                    w'\<lparr>stdout := stdout w' @ listing entries title @
                                    replicate (Suc (length bad)) select_prompt,
                       stdin := rest\<rparr>))"
proof -
  note s = get_single_entry_select [OF assms]
  show ?thesis
  proof (intro conjI impI allI)
    assume "entries = []"
    with s show "get_single_entry self arg title converter w = Some (Inr None, w')"
      by (simp add: select_entry_empty)
  next
    fix e assume "entries = [e]"
    with s show "get_single_entry self arg title converter w = Some (Inr (Some e), w')"
      by (simp add: select_entry_single)
  next
    assume a: "1 < length entries \<and> stdin w' = bad @ good # rest \<and>
          (\<forall>line \<in> set bad. \<exists>v. py_int line = Some v \<and> (v < 0 \<or> int (length entries) \<le> v)) \<and>
          py_int good = Some k \<and> 0 \<le> k \<and> k < int (length entries)"
    have "select_entry entries title w' =
           (Inr (Some (entries ! nat k)),
            w'\<lparr>stdout := stdout w' @ listing entries title @
                           replicate (Suc (length bad)) select_prompt,
              stdin := rest\<rparr>)"
      using a by (intro select_entry_choice) blast+
    with s show "get_single_entry self arg title converter w =
              Some (Inr (Some (entries ! nat k)),
                    w'\<lparr>stdout := stdout w' @ listing entries title @
                                    replicate (Suc (length bad)) select_prompt,
                       stdin := rest\<rparr>)"
      by simp
  qed
qed

text \<open>Two entries: the answer \<open>2\<close> is out of range and asked for again, \<open>0\<close> selects the first.\<close>

theorem get_single_entry_choice_witness:
  "get_single_entry (mock_service False mock_next) (ArgList [e1, e2]) None None
     (terminal [''2'', ''0'']) =
   Some (Inr (Some e1),
         \<lparr>stdout = listing [e1, e2] None @ [select_prompt, select_prompt], warnings = [],
            stdin = []\<rparr>)"
proof -
  have a: "(ArgList [e1, e2] = ArgList [e1, e2] \<and> terminal [''2'', ''0''] = terminal [''2'', ''0'']) \<or>
           (\<exists>uri. uri \<noteq> [] \<and> ArgList [e1, e2] = ArgStr uri \<and>
                  get_entries (mock_service False mock_next) uri None None (terminal [''2'', ''0'']) =
                    Some (Inr [e1, e2], terminal [''2'', ''0'']))"
    by simp
  have b: "1 < length [e1, e2] \<and> stdin (terminal [''2'', ''0'']) = [''2''] @ ''0'' # [] \<and>
          (\<forall>line \<in> set [''2'']. \<exists>v. py_int line = Some v \<and> (v < 0 \<or> int (length [e1, e2]) \<le> v)) \<and>
          py_int ''0'' = Some 0 \<and> (0::int) \<le> 0 \<and> 0 < int (length [e1, e2])"
    by (simp add: terminal_def py_int_digits)
  from get_single_entry_choice [OF a, THEN conjunct2, THEN conjunct2, THEN mp, OF b]
  show ?thesis
    by (simp add: terminal_def)
qed

text \<open>
  C10. For an argument that is \<open>None\<close> or empty, \<open>get_single_entry\<close> returns \<open>None\<close>
  whatever the feed source is, and leaves the terminal as it was: nothing is fetched,
  written or read. For a truthy argument that is neither a string nor a list it raises
  \<open>Error\<close>.
\<close>

theorem get_single_entry_guard:
  "(\<not> arg_truth arg \<longrightarrow> get_single_entry self arg title converter w = Some (Inr None, w)) \<and>
   get_single_entry self (ArgOther True) title converter w =
     Some (Inl (Error ''Got unexpected type for uri_or_entry_list!''), w)"
  by (simp add: get_single_entry_def)

text \<open>
  The four falsy arguments, with a feed source whose next-page method would raise and a
  pending input line that stays unread.
\<close>

theorem get_single_entry_guard_witness:
  "get_single_entry (mock_service False failing_next) ArgNone None None (terminal [''0'']) =
     Some (Inr None, terminal [''0'']) \<and>
   get_single_entry (mock_service False failing_next) (ArgStr []) None None (terminal [''0'']) =
     Some (Inr None, terminal [''0'']) \<and>
   get_single_entry (mock_service False failing_next) (ArgList []) None None (terminal [''0'']) =
     Some (Inr None, terminal [''0'']) \<and>
   get_single_entry (mock_service False failing_next) (ArgOther False) None None (terminal [''0'']) =
     Some (Inr None, terminal [''0''])"
  using get_single_entry_guard [of ArgNone "mock_service False failing_next" None None "terminal [''0'']"]
        get_single_entry_guard [of "ArgStr []" "mock_service False failing_next" None None "terminal [''0'']"]
        get_single_entry_guard [of "ArgList []" "mock_service False failing_next" None None "terminal [''0'']"]
        get_single_entry_guard [of "ArgOther False" "mock_service False failing_next" None None "terminal [''0'']"]
  by simp

end
